theory Spec2Isabelle
  imports Main
begin

section \<open>Python values\<close>

text \<open>
  The JSON scalars that reach the code: \<open>null\<close> (Python \<open>None\<close>), strings and
  integers. Where only the kind of a value matters (its truthiness, the \<open>TypeError\<close>
  of \<open>re.sub\<close>), an integer is the example of a value that is neither \<open>None\<close> nor a
  string.
\<close>

datatype pyval = PNone | PStr string | PInt int

text \<open>Python truthiness (\<open>if x\<close>, \<open>not x\<close>, \<open>x or y\<close>).\<close>

fun truthy :: "pyval \<Rightarrow> bool" where
  "truthy PNone = False"
| "truthy (PStr s) = (s \<noteq> [])"
| "truthy (PInt n) = (n \<noteq> 0)"

text \<open>An exception: its class name and its message (\<open>str(error)\<close>).\<close>

datatype exn = Exn string string

fun str_exn :: "exn \<Rightarrow> string" where
  "str_exn (Exn cls msg) = msg"

text \<open>A dictionary read from JSON, and \<open>d.get(k, default)\<close>.\<close>

type_synonym pydict = "(string \<times> pyval) list"

definition dict_get :: "pydict \<Rightarrow> string \<Rightarrow> pyval \<Rightarrow> pyval" where
  "dict_get d k dflt = (case map_of d k of None \<Rightarrow> dflt | Some v \<Rightarrow> v)"

text \<open>\<open>str(x)\<close> and \<open>'{}'.format(x)\<close>: decimal digits for an integer.\<close>

definition digit_char :: "nat \<Rightarrow> char" where
  "digit_char d = ''0123456789'' ! d"

fun str_nat :: "nat \<Rightarrow> string" where
  "str_nat n = (if n < 10 then [digit_char n] else str_nat (n div 10) @ [digit_char (n mod 10)])"

declare str_nat.simps [simp del]

fun py_str :: "pyval \<Rightarrow> string" where
  "py_str PNone = ''None''"
| "py_str (PStr s) = s"
| "py_str (PInt n) = (if n < 0 then CHR ''-'' # str_nat (nat (- n)) else str_nat (nat n))"

definition is_digit :: "char \<Rightarrow> bool" where
  "is_digit c = (48 \<le> (of_char c :: nat) \<and> (of_char c :: nat) \<le> 57)"

text \<open>\<open>s.isdigit()\<close>: non-empty and every character a digit (ASCII digits here).\<close>

definition isdigit :: "string \<Rightarrow> bool" where
  "isdigit s = (s \<noteq> [] \<and> list_all is_digit s)"

definition is_space :: "char \<Rightarrow> bool" where
  "is_space c = (c = CHR '' '' \<or> c \<in> set [CHR 0x09, CHR 0x0A, CHR 0x0B, CHR 0x0C, CHR 0x0D,
     CHR 0x1C, CHR 0x1D, CHR 0x1E, CHR 0x1F])"

text \<open>\<open>s.strip()\<close>, with the ASCII whitespace characters.\<close>

definition strip :: "string \<Rightarrow> string" where
  "strip s = rev (dropWhile is_space (rev (dropWhile is_space s)))"

section \<open>Phone normalizer\<close>

text \<open>
  \<^verbatim>\<open>re.sub(r'\\D', '', phone)\<close>. The pattern is a raw string of three characters:
  backslash, backslash, \<open>D\<close>. As a regular expression it is an escaped backslash
  followed by the letter \<open>D\<close>, so it matches the two-character text backslash-D and
  nothing else. The substitution deletes the non-overlapping occurrences, leftmost first.
\<close>

fun re_sub_backslash_D :: "string \<Rightarrow> string" where
  "re_sub_backslash_D (a # b # rest) =
     (if a = CHR 0x5C \<and> b = CHR ''D'' then re_sub_backslash_D rest
      else a # re_sub_backslash_D (b # rest))"
| "re_sub_backslash_D s = s"

text \<open>
  \<open>re.sub\<close> raises \<open>TypeError\<close> when its subject is not a string.
\<close>

definition re_type_error :: exn where
  "re_type_error = Exn ''TypeError'' ''expected string or bytes-like object''"

text \<open>
  \<^verbatim>\<open>
  def _clean_phone(self, phone):
      if not phone:
          return None
      import re
      return re.sub(r'\\D', '', phone)
  \<close>
\<close>

fun clean_phone :: "pyval \<Rightarrow> exn + string option" where
  "clean_phone PNone = Inr None"
| "clean_phone (PStr s) = (if s = [] then Inr None else Inr (Some (re_sub_backslash_D s)))"
| "clean_phone (PInt n) = (if n = 0 then Inr None else Inl re_type_error)"

text \<open>
  The digit-only substring of a string: what the specification says the normalizer
  returns, and what the SQL expression \<^verbatim>\<open>REGEXP_REPLACE(x, '[^0-9]', '')\<close> of the
  perfect-match query computes on the CRM side.
\<close>

definition digits_only :: "string \<Rightarrow> string" where
  "digits_only s = filter is_digit s"


section \<open>Strings on the SQL side\<close>

definition upper_char :: "char \<Rightarrow> char" where
  "upper_char c =
     (case map_of (zip ''abcdefghijklmnopqrstuvwxyz'' ''ABCDEFGHIJKLMNOPQRSTUVWXYZ'') c of
        None \<Rightarrow> c | Some u \<Rightarrow> u)"

definition lower_char :: "char \<Rightarrow> char" where
  "lower_char c =
     (case map_of (zip ''ABCDEFGHIJKLMNOPQRSTUVWXYZ'' ''abcdefghijklmnopqrstuvwxyz'') c of
        None \<Rightarrow> c | Some l \<Rightarrow> l)"

definition upper :: "string \<Rightarrow> string" where
  "upper s = map upper_char s"

definition lower :: "string \<Rightarrow> string" where
  "lower s = map lower_char s"

section \<open>Data model\<close>

text \<open>The dictionary returned by \<open>get_order_details\<close>.\<close>

record order_details =
  id_o :: pyval
  email_o :: pyval
  customer_name_o :: string
  phone_o :: pyval
  order_date_o :: pyval
  order_total_o :: pyval
  store_o :: string

text \<open>
  The keys that \<open>_execute_search_query\<close> fills from the CRM record. The dictionaries
  built for "not found" and "search error" do not have them (\<open>details = None\<close>).
\<close>

record contact_details =
  contact_id :: pyval
  email :: pyval
  phone :: pyval
  sales_rep :: pyval
  contact_date :: pyval
  created_date :: pyval
  name :: pyval
  record_type :: pyval

record contact_result =
  details :: "contact_details option"
  found :: bool
  manual_verification :: bool
  review_reason :: string

text \<open>\<open>result.get(key, default)\<close> for one of the keys of \<open>contact_details\<close>.\<close>

definition contact_get :: "contact_result \<Rightarrow> (contact_details \<Rightarrow> pyval) \<Rightarrow> pyval \<Rightarrow> pyval" where
  "contact_get r key dflt = (case details r of None \<Rightarrow> dflt | Some d \<Rightarrow> key d)"

text \<open>The flat record posted to the ledger (\<open>sheet_data\<close>).\<close>

record sheet_data =
  store_s :: pyval
  order_id_s :: string
  email_s :: pyval
  customer_name_s :: string
  phone_s :: pyval
  order_date_s :: pyval
  order_total_s :: pyval
  sales_rep_s :: pyval
  contact_date_s :: pyval
  manual_verification_s :: bool
  review_reason_s :: string
  record_type_s :: pyval
  netsuite_phone_s :: pyval

text \<open>What \<open>process_klaviyo_order\<close> returns.\<close>

datatype response =
    Error string nat  \<comment> \<open>\<open>({"error": message}, code)\<close>\<close>
  | Success pyval pyval bool  \<comment> \<open>status "success": order id, sales rep, manual verification\<close>
  | Ignored pyval string  \<comment> \<open>status "ignored": order id, reason\<close>

section \<open>External systems\<close>

text \<open>
  A SuiteQL request: the query text is one of three templates filled by
  \<open>str.format\<close>, so a request is the template with its arguments.
\<close>

datatype query =
    PerfectMatchQuery string string  \<comment> \<open>email, clean phone\<close>
  | EmailOnlyQuery string  \<comment> \<open>email\<close>
  | EmployeeQuery string  \<comment> \<open>employee id\<close>

text \<open>
  What happens inside a \<open>try\<close> block around \<open>requests.post\<close>: an exception (from the
  request or from decoding the body), or a response with its status code and the
  \<open>items\<close> of its JSON body (\<open>data.get("items", [])\<close>).
\<close>

datatype post_outcome = PostRaises exn | PostResponse nat "pydict list"

datatype sheets_outcome = SheetsRaises exn | SheetsStatus nat

text \<open>
  The JSON body of an order: its top-level scalar fields, and \<open>billing_address\<close>
  when the key is present.
\<close>

record order_json =
  order_fields :: pydict
  billing_address :: "pydict option"

text \<open>
  The world outside the process: the environment variables, the three remote systems
  as functions of the request, and the date library (\<open>reformat_date\<close> is the loop of
  \<open>format_bigcommerce_date\<close> over the three \<open>strptime\<close> formats: the reformatted
  text when one of them parses the string, nothing otherwise).
  \<open>order_api url\<close> is the outcome of \<open>requests.get\<close>, \<open>raise_for_status\<close> and
  \<open>response.json()\<close> together.
\<close>

record world =
  getenv :: "string \<Rightarrow> string option"
  order_api :: "string \<Rightarrow> exn + order_json"
  suiteql :: "query \<Rightarrow> post_outcome"
  sheets :: "string \<Rightarrow> sheet_data \<Rightarrow> sheets_outcome"
  reformat_date :: "string \<Rightarrow> string option"

text \<open>What a run does, in order: lines printed and requests sent.\<close>

datatype event =
    Print string
  | HttpGet string  \<comment> \<open>\<open>requests.get(url)\<close> to the order-management API\<close>
  | SuiteQL string query  \<comment> \<open>\<open>requests.post(url, json={"q": query})\<close> to the CRM\<close>
  | SheetsPost string sheet_data  \<comment> \<open>\<open>requests.post(webapp_url, json=data)\<close> to the ledger\<close>

fun is_network_call :: "event \<Rightarrow> bool" where
  "is_network_call (Print s) = False"
| "is_network_call (HttpGet u) = True"
| "is_network_call (SuiteQL u q) = True"
| "is_network_call (SheetsPost u d) = True"


text \<open>The truthiness of an optional string (\<open>os.getenv\<close>, a cleaned phone).\<close>

fun opt_truthy :: "string option \<Rightarrow> bool" where
  "opt_truthy None = False"
| "opt_truthy (Some s) = (s \<noteq> [])"

section \<open>Order fetcher\<close>

record bigcommerce_service =
  store_hash :: string
  access_token :: string
  store_name :: string
  base_url :: string

text \<open>\<open>BigCommerceService.__init__\<close>; \<open>store_name or store_hash\<close>.\<close>

definition BigCommerceService :: "string \<Rightarrow> string \<Rightarrow> string option \<Rightarrow> bigcommerce_service" where
  "BigCommerceService hash token display_name =
     \<lparr> store_hash = hash, access_token = token,
       store_name = (case display_name of None \<Rightarrow> hash | Some n \<Rightarrow> if n = [] then hash else n),
       base_url = ''https://api.bigcommerce.com/stores/'' @ hash @ ''/v2'' \<rparr>"

text \<open>
  \<open>get_order_details\<close>: the \<open>except\<close> branch prints and raises the same error again.
\<close>

definition get_order_details ::
  "world \<Rightarrow> bigcommerce_service \<Rightarrow> pyval \<Rightarrow> (exn + order_details) \<times> event list" where
  "get_order_details w svc order_id =
     (let url = base_url svc @ ''/orders/'' @ py_str order_id in
      case order_api w url of
        Inl error \<Rightarrow>
          (Inl error,
           [HttpGet url,
            Print (''Error fetching order '' @ py_str order_id @ '' from '' @ store_name svc
                   @ '': '' @ str_exn error)])
      | Inr data \<Rightarrow>
          (let billing = (case billing_address data of None \<Rightarrow> [] | Some b \<Rightarrow> b) in
           (Inr \<lparr> id_o = dict_get (order_fields data) ''id'' PNone,
                  email_o = dict_get billing ''email'' (PStr []),
                  customer_name_o =
                    strip (py_str (dict_get billing ''first_name'' (PStr [])) @ '' ''
                           @ py_str (dict_get billing ''last_name'' (PStr []))),
                  phone_o = dict_get billing ''phone'' (PStr []),
                  order_date_o = dict_get (order_fields data) ''date_created'' PNone,
                  order_total_o =
                    dict_get (order_fields data) ''subtotal_ex_tax''
                      (dict_get (order_fields data) ''total_ex_tax'' (PStr ''0.00'')),
                  store_o = store_name svc \<rparr>,
            [HttpGet url])))"

section \<open>Contact matcher\<close>

record netsuite_service =
  account_id :: string
  query_base_url :: string

text \<open>
  \<open>NetSuiteService.__init__\<close>: \<open>self.account_id.lower()\<close> raises when the account id
  is not configured. The OAuth1 signer built from the other four credentials only
  signs the requests and is left out.
\<close>

definition NetSuiteService :: "world \<Rightarrow> exn + netsuite_service" where
  "NetSuiteService w =
     (case getenv w ''NETSUITE_ACCOUNT_ID'' of
        None \<Rightarrow> Inl (Exn ''AttributeError'' (CHR 0x27 # ''NoneType'' @ CHR 0x27 # '' object has no attribute ''
                     @ CHR 0x27 # ''lower'' @ [CHR 0x27]))
      | Some a \<Rightarrow>
          Inr \<lparr> account_id = a,
                query_base_url = ''https://'' @ lower a
                  @ ''.suitetalk.api.netsuite.com/services/rest/query/v1'' \<rparr>)"

definition employee_fallback :: "pyval \<Rightarrow> pyval" where
  "employee_fallback employee_id = PStr (''Employee ID: '' @ py_str employee_id)"

definition get_employee_name ::
  "world \<Rightarrow> netsuite_service \<Rightarrow> pyval \<Rightarrow> pyval \<times> event list" where
  "get_employee_name w ns employee_id =
     (let q = EmployeeQuery (py_str employee_id);
          url = query_base_url ns @ ''/suiteql'' in
      case suiteql w q of
        PostRaises error \<Rightarrow>
          (employee_fallback employee_id,
           [SuiteQL url q,
            Print (''Error fetching employee '' @ py_str employee_id @ '': '' @ str_exn error)])
      | PostResponse status_code items \<Rightarrow>
          if status_code = 200 then
            (case items of
               [] \<Rightarrow> (employee_fallback employee_id, [SuiteQL url q])
             | employee # rest \<Rightarrow>
                 (let nm = strip (py_str (dict_get employee ''firstname'' (PStr [])) @ '' ''
                                  @ py_str (dict_get employee ''lastname'' (PStr [])))
                  in (if nm = [] then dict_get employee ''entityid'' (employee_fallback employee_id)
                      else PStr nm,
                      [SuiteQL url q])))
          else (employee_fallback employee_id, [SuiteQL url q]))"

text \<open>
  \<open>_execute_search_query\<close>: every failure inside it (an exception, a status other than
  200, no items) gives \<open>None\<close>.
\<close>

definition execute_search_query ::
  "world \<Rightarrow> netsuite_service \<Rightarrow> query \<Rightarrow> string \<Rightarrow> contact_result option \<times> event list" where
  "execute_search_query w ns q match_type =
     (let url = query_base_url ns @ ''/suiteql'' in
      case suiteql w q of
        PostRaises error \<Rightarrow>
          (None, [SuiteQL url q, Print (''Error executing search query: '' @ str_exn error)])
      | PostResponse status_code items \<Rightarrow>
          if status_code = 200 then
            (case items of
               [] \<Rightarrow> (None, [SuiteQL url q])
             | rec # rest \<Rightarrow>
                 (let sales_rep_id = dict_get rec ''salesrep'' PNone;
                      rep = (if truthy sales_rep_id \<and> isdigit (py_str sales_rep_id)
                             then get_employee_name w ns sales_rep_id
                             else (if truthy sales_rep_id then sales_rep_id
                                   else PStr ''Not Assigned'', []));
                      last_contact = dict_get rec ''last_contact_date'' PNone;
                      nm = strip (py_str (dict_get rec ''firstname'' (PStr [])) @ '' ''
                                  @ py_str (dict_get rec ''lastname'' (PStr [])))
                  in (Some \<lparr> details = Some
                               \<lparr> contact_id = dict_get rec ''id'' PNone,
                                 email = dict_get rec ''email'' PNone,
                                 phone = dict_get rec ''phone'' PNone,
                                 sales_rep = fst rep,
                                 contact_date =
                                   (if truthy last_contact then last_contact
                                    else dict_get rec ''lastmodifieddate'' PNone),
                                 created_date = dict_get rec ''datecreated'' PNone,
                                 name = (if nm = [] then dict_get rec ''entityid'' (PStr [])
                                         else PStr nm),
                                 record_type = dict_get rec ''record_type'' PNone \<rparr>,
                             found = True,
                             manual_verification = False,
                             review_reason = match_type \<rparr>,
                      SuiteQL url q # snd rep)))
          else (None, [SuiteQL url q, Print (''NetSuite API Error: '' @ str_nat status_code)]))"

definition search_customer_perfect_match ::
  "world \<Rightarrow> netsuite_service \<Rightarrow> pyval \<Rightarrow> string \<Rightarrow> contact_result option \<times> event list" where
  "search_customer_perfect_match w ns email_arg clean =
     execute_search_query w ns (PerfectMatchQuery (py_str email_arg) clean) ''Perfect match''"

definition search_customer_email_only ::
  "world \<Rightarrow> netsuite_service \<Rightarrow> pyval \<Rightarrow> contact_result option \<times> event list" where
  "search_customer_email_only w ns email_arg =
     execute_search_query w ns (EmailOnlyQuery (py_str email_arg)) ''Email match''"

definition no_record_found :: contact_result where
  "no_record_found =
     \<lparr> details = None, found = False, manual_verification = True,
       review_reason = ''No NetSuite record found'' \<rparr>"

definition search_error :: "exn \<Rightarrow> contact_result" where
  "search_error error =
     \<lparr> details = None, found = False, manual_verification = True,
       review_reason = ''Search error: '' @ str_exn error \<rparr>"

text \<open>
  Lines 83 to 95 of \<open>search_contact_by_email_and_phone\<close>: the annotation of an
  email-only match. The second call of \<open>_clean_phone\<close> may raise.
\<close>

definition annotate_email_match :: "string option \<Rightarrow> contact_result \<Rightarrow> exn + contact_result" where
  "annotate_email_match clean email_match =
     (if opt_truthy clean \<and> truthy (contact_get email_match phone PNone) then
        (case clean_phone (contact_get email_match phone PNone) of
           Inl error \<Rightarrow> Inl error
         | Inr netsuite_phone \<Rightarrow>
             if netsuite_phone \<noteq> clean then
               Inr (email_match \<lparr> manual_verification := True,
                                  review_reason := ''Phone number mismatch'' \<rparr>)
             else
               Inr (email_match \<lparr> manual_verification := False,
                                  review_reason := ''Perfect match'' \<rparr>))
      else
        Inr (email_match \<lparr> manual_verification := opt_truthy clean,
                           review_reason := (if opt_truthy clean then ''Missing phone in NetSuite''
                                             else ''No phone provided'') \<rparr>))"

text \<open>\<open>self._clean_phone(phone) if phone else None\<close> (line 74).\<close>

definition supplied_phone :: "pyval \<Rightarrow> exn + string option" where
  "supplied_phone p = (if truthy p then clean_phone p else Inr None)"

text \<open>The body of the \<open>try\<close> block of \<open>search_contact_by_email_and_phone\<close>.\<close>

definition search_contact_try ::
  "world \<Rightarrow> netsuite_service \<Rightarrow> pyval \<Rightarrow> pyval \<Rightarrow> (exn + contact_result) \<times> event list" where
  "search_contact_try w ns email_arg phone_arg =
     (case supplied_phone phone_arg of
        Inl error \<Rightarrow> (Inl error, [])
      | Inr clean \<Rightarrow>
          (let perfect = (case clean of
                            None \<Rightarrow> (None, [])
                          | Some c \<Rightarrow> if c = [] then (None, [])
                                      else search_customer_perfect_match w ns email_arg c)
           in case fst perfect of
                Some perfect_match \<Rightarrow> (Inr perfect_match, snd perfect)
              | None \<Rightarrow>
                  (let email_only = search_customer_email_only w ns email_arg in
                   case fst email_only of
                     Some email_match \<Rightarrow>
                       (annotate_email_match clean email_match, snd perfect @ snd email_only)
                   | None \<Rightarrow> (Inr no_record_found, snd perfect @ snd email_only))))"

text \<open>\<open>search_contact_by_email_and_phone\<close>, with its \<open>except\<close> branch.\<close>

definition search_contact_by_email_and_phone ::
  "world \<Rightarrow> netsuite_service \<Rightarrow> pyval \<Rightarrow> pyval \<Rightarrow> contact_result \<times> event list" where
  "search_contact_by_email_and_phone w ns email_arg phone_arg =
     (case search_contact_try w ns email_arg phone_arg of
        (Inr result, t) \<Rightarrow> (result, t)
      | (Inl error, t) \<Rightarrow>
          (search_error error,
           t @ [Print (''Error searching NetSuite contact: '' @ str_exn error)]))"

section \<open>Ledger and attribution orchestrator\<close>

text \<open>
  \<open>format_bigcommerce_date\<close>: a \<open>strptime\<close> on a value that is not a string raises
  \<open>TypeError\<close>, which the outer \<open>except\<close> prints before returning the value unchanged.
\<close>

definition format_bigcommerce_date :: "world \<Rightarrow> pyval \<Rightarrow> pyval \<times> event list" where
  "format_bigcommerce_date w date_string =
     (if \<not> truthy date_string then (PStr [], [])
      else case date_string of
             PStr s \<Rightarrow> (case reformat_date w s of
                          Some formatted \<Rightarrow> (PStr formatted, [])
                        | None \<Rightarrow> (date_string, []))
           | other \<Rightarrow>
               (date_string,
                [Print (''Error formatting date '' @ py_str date_string
                        @ '': strptime() argument 1 must be str, not int'')]))"

definition manual_flag :: "sheet_data \<Rightarrow> string" where
  "manual_flag d = (if manual_verification_s d then '' [MANUAL VERIFICATION]'' else [])"

text \<open>\<open>send_to_sheets\<close>: without a configured endpoint it only prints and returns \<open>True\<close>.\<close>

definition send_to_sheets :: "world \<Rightarrow> sheet_data \<Rightarrow> bool \<times> event list" where
  "send_to_sheets w d =
     (case getenv w ''GOOGLE_WEBAPP_URL'' of
        None \<Rightarrow>
          (True, [Print (''[SIMULATION] Would send to sheets: '' @ order_id_s d @ '' - ''
                         @ py_str (email_s d) @ '' - '' @ py_str (sales_rep_s d) @ manual_flag d)])
      | Some webapp_url \<Rightarrow>
          if webapp_url = [] then
            (True, [Print (''[SIMULATION] Would send to sheets: '' @ order_id_s d @ '' - ''
                           @ py_str (email_s d) @ '' - '' @ py_str (sales_rep_s d) @ manual_flag d)])
          else
            (case sheets w webapp_url d of
               SheetsRaises e \<Rightarrow>
                 (False, [SheetsPost webapp_url d, Print (''Error sending to sheets: '' @ str_exn e)])
             | SheetsStatus status_code \<Rightarrow>
                 if status_code = 200 then
                   (True, [SheetsPost webapp_url d,
                           Print (''Sent to sheets: Order '' @ order_id_s d @ '' - ''
                                  @ py_str (sales_rep_s d) @ manual_flag d)])
                 else
                   (False, [SheetsPost webapp_url d,
                            Print (''Failed to send to sheets: '' @ str_nat status_code)])))"

definition store_configs :: "(string \<times> string \<times> string \<times> string) list" where
  "store_configs =
     [(''Wilson US'', ''BIGCOMMERCE_STORE1_HASH'', ''BIGCOMMERCE_STORE1_ACCESS_TOKEN'', ''BIGCOMMERCE_STORE1_NAME''),
      (''Signal US'', ''BIGCOMMERCE_STORE2_HASH'', ''BIGCOMMERCE_STORE2_ACCESS_TOKEN'', ''BIGCOMMERCE_STORE2_NAME''),
      (''Wilson CA'', ''BIGCOMMERCE_STORE3_HASH'', ''BIGCOMMERCE_STORE3_ACCESS_TOKEN'', ''BIGCOMMERCE_STORE3_NAME''),
      (''Signal CA'', ''BIGCOMMERCE_STORE4_HASH'', ''BIGCOMMERCE_STORE4_ACCESS_TOKEN'', ''BIGCOMMERCE_STORE4_NAME'')]"

text \<open>\<open>store_configs.get(store_name)\<close>: only a string can be one of the keys.\<close>

fun store_config :: "pyval \<Rightarrow> (string \<times> string \<times> string) option" where
  "store_config (PStr s) = map_of store_configs s"
| "store_config v = None"

definition get_bigcommerce_service_by_store_name ::
  "world \<Rightarrow> pyval \<Rightarrow> exn + bigcommerce_service" where
  "get_bigcommerce_service_by_store_name w store_name_arg =
     (case store_config store_name_arg of
        None \<Rightarrow> Inl (Exn ''ValueError'' (''Unknown store name: '' @ py_str store_name_arg))
      | Some (hash_key, token_key, name_key) \<Rightarrow>
          (case (getenv w hash_key, getenv w token_key) of
             (Some hash, Some token) \<Rightarrow>
               if hash = [] \<or> token = [] then
                 Inl (Exn ''ValueError''
                        (''Missing configuration for store: '' @ py_str store_name_arg))
               else Inr (BigCommerceService hash token (getenv w name_key))
           | other \<Rightarrow>
               Inl (Exn ''ValueError''
                      (''Missing configuration for store: '' @ py_str store_name_arg))))"

text \<open>The sales-rep values that mean "no attribution" (line 351).\<close>

definition unassigned :: "pyval list" where
  "unassigned = [PStr ''Not Assigned'', PStr ''NO OWNER'', PNone, PStr []]"

definition attributable :: "contact_result \<Rightarrow> bool" where
  "attributable r = (found r \<and> contact_get r sales_rep PNone \<notin> set unassigned)"

text \<open>
  Lines 351 to 393 of \<open>process_klaviyo_order\<close>: what is done with the result of the
  contact matcher.
\<close>

definition attribute_order ::
  "world \<Rightarrow> pyval \<Rightarrow> pyval \<Rightarrow> order_details \<Rightarrow> contact_result \<Rightarrow> response \<times> event list" where
  "attribute_order w store_name_arg order_id od r =
     (if attributable r then
        (let rep = contact_get r sales_rep PNone;
             formatted = format_bigcommerce_date w (order_date_o od);
             sheet = \<lparr> store_s = store_name_arg,
                       order_id_s = py_str (id_o od),
                       email_s = email_o od,
                       customer_name_s = customer_name_o od,
                       phone_s = phone_o od,
                       order_date_s = fst formatted,
                       order_total_s = order_total_o od,
                       sales_rep_s = rep,
                       contact_date_s = contact_get r contact_date (PStr []),
                       manual_verification_s = manual_verification r,
                       review_reason_s = review_reason r,
                       record_type_s = contact_get r record_type (PStr ''unknown''),
                       netsuite_phone_s = contact_get r phone (PStr []) \<rparr>;
             sent = send_to_sheets w sheet
         in (if fst sent then Success order_id rep (manual_verification r)
             else Error ''Failed to send to Google Sheets'' 500,
             Print (''Found customer with sales rep: '' @ py_str rep @ '' - '' @ review_reason r)
               # snd formatted @ snd sent))
      else
        (Ignored order_id (review_reason r),
         [Print (''No sales rep attribution - ignoring order ('' @ review_reason r @ '')'')]))"

text \<open>
  The trigger payload: the \<open>data\<close> object of the JSON body when the key is present.
\<close>

record klaviyo_data =
  data :: "pydict option"

text \<open>\<open>order_info = klaviyo_data.get('data', {})\<close>.\<close>

definition order_info :: "klaviyo_data \<Rightarrow> pydict" where
  "order_info payload = (case data payload of None \<Rightarrow> [] | Some d \<Rightarrow> d)"

text \<open>
  Lines 333 to 349 of \<open>process_klaviyo_order\<close>: validation, order fetch and contact
  match. The run ends here with a response (\<open>return\<close>) or an exception (\<open>raise\<close>), or
  it goes on with the store name, the order id, the order and the contact-match result.
\<close>

definition fetch_and_match ::
  "world \<Rightarrow> klaviyo_data \<Rightarrow>
     ((exn + response) + (pyval \<times> pyval \<times> order_details \<times> contact_result)) \<times> event list" where
  "fetch_and_match w payload =
     (let order_id = dict_get (order_info payload) ''order_id'' PNone;
          store_name_arg = dict_get (order_info payload) ''store'' PNone
      in if \<not> truthy order_id then
           (Inl (Inr (Error ''No order ID found in Klaviyo data'' 400)), [])
         else if \<not> truthy store_name_arg then
           (Inl (Inr (Error ''No store name found in Klaviyo data'' 400)), [])
         else
           (let t0 = [Print (''Processing order '' @ py_str order_id @ '' from ''
                             @ py_str store_name_arg)]
            in case get_bigcommerce_service_by_store_name w store_name_arg of
                 Inl error \<Rightarrow> (Inl (Inl error), t0)
               | Inr bigcommerce \<Rightarrow>
                   (case get_order_details w bigcommerce order_id of
                      (Inl error, t1) \<Rightarrow> (Inl (Inl error), t0 @ t1)
                    | (Inr od, t1) \<Rightarrow>
                        (case NetSuiteService w of
                           Inl error \<Rightarrow> (Inl (Inl error), t0 @ t1)
                         | Inr netsuite \<Rightarrow>
                             (let matched = search_contact_by_email_and_phone w netsuite
                                              (email_o od) (phone_o od)
                              in (Inr (store_name_arg, order_id, od, fst matched),
                                  t0 @ t1 @ snd matched))))))"

text \<open>The body of the \<open>try\<close> block of \<open>process_klaviyo_order\<close>.\<close>

definition process_klaviyo_order_try ::
  "world \<Rightarrow> klaviyo_data \<Rightarrow> (exn + response) \<times> event list" where
  "process_klaviyo_order_try w payload =
     (case fetch_and_match w payload of
        (Inl early, t) \<Rightarrow> (early, t)
      | (Inr (store_name_arg, order_id, od, contact), t) \<Rightarrow>
          (let outcome = attribute_order w store_name_arg order_id od contact
           in (Inr (fst outcome), t @ snd outcome)))"

text \<open>\<open>process_klaviyo_order\<close>: every exception of the body becomes a 500.\<close>

definition process_klaviyo_order :: "world \<Rightarrow> klaviyo_data \<Rightarrow> response \<times> event list" where
  "process_klaviyo_order w payload =
     (case process_klaviyo_order_try w payload of
        (Inr result, t) \<Rightarrow> (result, t)
      | (Inl error, t) \<Rightarrow>
          (Error (str_exn error) 500,
           t @ [Print (''Error processing Klaviyo order: '' @ str_exn error)]))"

section \<open>The CRM behind the SuiteQL queries\<close>

text \<open>
  The customer table that the two search queries read, with SQL \<open>NULL\<close> as \<open>None\<close>.
  The list is in the order of the \<open>ORDER BY\<close> clause that both queries share, so the
  rows a query selects come back in list order.
\<close>

record customer =
  id_c :: string
  email_c :: "string option"
  phone_c :: "string option"
  entityid_c :: "string option"
  last_contact_date_c :: "string option"
  lastmodifieddate_c :: "string option"
  datecreated_c :: "string option"
  firstname_c :: "string option"
  lastname_c :: "string option"
  salesrep_c :: "string option"

text \<open>
  \<^verbatim>\<open>WHERE UPPER(email) = UPPER('{}') AND salesrep IS NOT NULL\<close> (a comparison with
  \<open>NULL\<close> selects nothing).
\<close>

definition email_only_where :: "string \<Rightarrow> customer \<Rightarrow> bool" where
  "email_only_where e r =
     ((case email_c r of None \<Rightarrow> False | Some x \<Rightarrow> upper x = upper e) \<and> salesrep_c r \<noteq> None)"

text \<open>
  \<^verbatim>\<open>WHERE UPPER(email) = UPPER('{}')
    AND REGEXP_REPLACE(NVL(phone, ''), '[^0-9]', '') = '{}'
    AND salesrep IS NOT NULL\<close>
\<close>

definition perfect_match_where :: "string \<Rightarrow> string \<Rightarrow> customer \<Rightarrow> bool" where
  "perfect_match_where e clean r =
     ((case email_c r of None \<Rightarrow> False | Some x \<Rightarrow> upper x = upper e)
      \<and> digits_only (case phone_c r of None \<Rightarrow> [] | Some p \<Rightarrow> p) = clean
      \<and> salesrep_c r \<noteq> None)"

fun customer_where :: "query \<Rightarrow> customer \<Rightarrow> bool" where
  "customer_where (PerfectMatchQuery e clean) r = perfect_match_where e clean r"
| "customer_where (EmailOnlyQuery e) r = email_only_where e r"
| "customer_where (EmployeeQuery i) r = False"

text \<open>A selected row as a JSON item: the columns of the \<open>SELECT\<close> that are not \<open>NULL\<close>.\<close>

fun column :: "string \<Rightarrow> string option \<Rightarrow> pydict" where
  "column k None = []"
| "column k (Some v) = [(k, PStr v)]"

definition customer_item :: "customer \<Rightarrow> pydict" where
  "customer_item r =
     [(''id'', PStr (id_c r))] @ column ''email'' (email_c r) @ column ''phone'' (phone_c r)
     @ column ''entityid'' (entityid_c r)
     @ column ''last_contact_date'' (last_contact_date_c r)
     @ column ''lastmodifieddate'' (lastmodifieddate_c r)
     @ column ''datecreated'' (datecreated_c r)
     @ column ''firstname'' (firstname_c r) @ column ''lastname'' (lastname_c r)
     @ column ''salesrep'' (salesrep_c r) @ [(''record_type'', PStr ''customer'')]"

definition select_customers :: "customer list \<Rightarrow> query \<Rightarrow> pydict list" where
  "select_customers table q = map customer_item (filter (customer_where q) table)"

text \<open>
  A CRM that answers every customer query from the table with status 200, and finds
  no employee record.
\<close>

fun crm_suiteql :: "customer list \<Rightarrow> query \<Rightarrow> post_outcome" where
  "crm_suiteql table (EmployeeQuery i) = PostResponse 200 []"
| "crm_suiteql table q = PostResponse 200 (select_customers table q)"

text \<open>
  The answer of the world to a customer query agrees with the table: when the request
  succeeds with status 200, its items are the selected rows. The request may also fail.
  The query text is built by string interpolation, so this reading of the query
  presumes an email text that does not close the SQL string literal.
\<close>

definition answers_from :: "customer list \<Rightarrow> world \<Rightarrow> query \<Rightarrow> bool" where
  "answers_from table w q =
     (case suiteql w q of
        PostRaises e \<Rightarrow> True
      | PostResponse status_code items \<Rightarrow>
          (if status_code = 200 then items = select_customers table q else True))"

section \<open>Observations on results\<close>

text \<open>The status code of an error response.\<close>

fun error_status :: "response \<Rightarrow> nat option" where
  "error_status (Error msg code) = Some code"
| "error_status r = None"


text \<open>A failed SuiteQL request: an exception, or a status other than 200.\<close>

fun query_fails :: "post_outcome \<Rightarrow> bool" where
  "query_fails (PostRaises e) = True"
| "query_fails (PostResponse status_code items) = (status_code \<noteq> 200)"

section \<open>Example worlds\<close>

definition ann :: customer where
  "ann = \<lparr> id_c = ''17'', email_c = Some ''Ann@Example.com'', phone_c = Some ''5551234'',
           entityid_c = None, last_contact_date_c = None, lastmodifieddate_c = None,
           datecreated_c = None, firstname_c = Some ''Ann'', lastname_c = Some ''Lee'',
           salesrep_c = Some ''J. Smith'' \<rparr>"

definition bob :: customer where
  "bob = \<lparr> id_c = ''18'', email_c = Some ''bob@example.com'', phone_c = None,
           entityid_c = Some ''CUST18'', last_contact_date_c = None, lastmodifieddate_c = None,
           datecreated_c = None, firstname_c = None, lastname_c = None,
           salesrep_c = Some ''M. Jones'' \<rparr>"

definition cy :: customer where
  "cy = \<lparr> id_c = ''19'', email_c = Some ''cy@example.com'', phone_c = Some ''555-1234'',
          entityid_c = Some ''CUST19'', last_contact_date_c = None, lastmodifieddate_c = None,
          datecreated_c = None, firstname_c = None, lastname_c = None,
          salesrep_c = Some ''M. Jones'' \<rparr>"

text \<open>The contact details that \<open>_execute_search_query\<close> builds from these rows.\<close>

definition ann_details :: contact_details where
  "ann_details =
     \<lparr> contact_id = PStr ''17'', email = PStr ''Ann@Example.com'', phone = PStr ''5551234'',
       sales_rep = PStr ''J. Smith'', contact_date = PNone, created_date = PNone,
       name = PStr ''Ann Lee'', record_type = PStr ''customer'' \<rparr>"

definition bob_details :: contact_details where
  "bob_details =
     \<lparr> contact_id = PStr ''18'', email = PStr ''bob@example.com'', phone = PNone,
       sales_rep = PStr ''M. Jones'', contact_date = PNone, created_date = PNone,
       name = PStr ''CUST18'', record_type = PStr ''customer'' \<rparr>"

definition cy_details :: contact_details where
  "cy_details =
     \<lparr> contact_id = PStr ''19'', email = PStr ''cy@example.com'', phone = PStr ''555-1234'',
       sales_rep = PStr ''M. Jones'', contact_date = PNone, created_date = PNone,
       name = PStr ''CUST19'', record_type = PStr ''customer'' \<rparr>"

definition email_match_of :: "contact_details \<Rightarrow> contact_result" where
  "email_match_of d =
     \<lparr> details = Some d, found = True, manual_verification = False,
       review_reason = ''Email match'' \<rparr>"

definition example_env :: "string \<Rightarrow> string option" where
  "example_env = map_of
     [(''BIGCOMMERCE_STORE1_HASH'', ''abc123''), (''BIGCOMMERCE_STORE1_ACCESS_TOKEN'', ''token''),
      (''NETSUITE_ACCOUNT_ID'', ''ACME''), (''GOOGLE_WEBAPP_URL'', ''https://ledger.example/hook'')]"

definition order_1001 :: order_json where
  "order_1001 =
     \<lparr> order_fields = [(''id'', PInt 1001), (''subtotal_ex_tax'', PStr ''25.00'')],
       billing_address = Some [(''email'', PStr ''ann@example.com''), (''first_name'', PStr ''Ann''),
                               (''last_name'', PStr ''Lee''), (''phone'', PStr ''5551234'')] \<rparr>"

text \<open>A world in which every request succeeds, with the given customer table.\<close>

definition crm_world :: "customer list \<Rightarrow> world" where
  "crm_world table =
     \<lparr> getenv = example_env, order_api = (\<lambda>url. Inr order_1001),
       suiteql = crm_suiteql table, sheets = (\<lambda>url d. SheetsStatus 200),
       reformat_date = (\<lambda>s. None) \<rparr>"

text \<open>A world in which every request raises.\<close>

definition timed_out :: exn where
  "timed_out = Exn ''ConnectTimeout'' ''timed out''"

definition offline_world :: world where
  "offline_world =
     \<lparr> getenv = example_env, order_api = (\<lambda>url. Inl timed_out),
       suiteql = (\<lambda>q. PostRaises timed_out), sheets = (\<lambda>url d. SheetsRaises timed_out),
       reformat_date = (\<lambda>s. None) \<rparr>"

definition acme :: netsuite_service where
  "acme = \<lparr> account_id = ''ACME'',
            query_base_url = ''https://acme.suitetalk.api.netsuite.com/services/rest/query/v1'' \<rparr>"

definition wilson_us :: bigcommerce_service where
  "wilson_us = BigCommerceService ''abc123'' ''token'' None"

definition order_event :: "string \<Rightarrow> klaviyo_data" where
  "order_event store_text =
     \<lparr> data = Some [(''order_id'', PStr ''1001''), (''store'', PStr store_text)] \<rparr>"

section \<open>Unfolding rules\<close>

lemmas matcher_defs =
  search_contact_by_email_and_phone_def search_contact_try_def
  search_customer_perfect_match_def search_customer_email_only_def

lemmas eval_defs =
  execute_search_query_def get_employee_name_def employee_fallback_def annotate_email_match_def
  contact_get_def dict_get_def isdigit_def is_digit_def digits_only_def strip_def is_space_def
  upper_def upper_char_def select_customers_def customer_item_def
  perfect_match_where_def email_only_where_def no_record_found_def search_error_def
  re_type_error_def supplied_phone_def

lemmas fixture_defs =
  crm_world_def offline_world_def timed_out_def acme_def ann_def bob_def cy_def
  ann_details_def bob_details_def cy_details_def email_match_of_def

lemmas orchestrator_defs =
  process_klaviyo_order_def process_klaviyo_order_try_def fetch_and_match_def order_info_def
  get_bigcommerce_service_by_store_name_def store_configs_def BigCommerceService_def
  get_order_details_def NetSuiteService_def lower_def lower_char_def attribute_order_def
  attributable_def unassigned_def send_to_sheets_def format_bigcommerce_date_def manual_flag_def
  example_env_def order_1001_def order_event_def wilson_us_def

section \<open>Phone normalizer\<close>

lemma clean_phone_absent: "clean_phone PNone = Inr None \<and> clean_phone (PStr []) = Inr None"
  by simp

text \<open>The normalizer removes no digit: the digits of its result are those of its input.\<close>

lemma digits_only_re_sub: "digits_only (re_sub_backslash_D s) = digits_only s"
  by (induction s rule: re_sub_backslash_D.induct) (auto simp: digits_only_def is_digit_def)

text \<open>A text of digits is returned as it is.\<close>

lemma re_sub_digits: "list_all is_digit s \<Longrightarrow> re_sub_backslash_D s = s"
  by (induction s rule: re_sub_backslash_D.induct) (auto simp: is_digit_def)

text \<open>
  C1. The normalizer is meant to return the digit-only substring of the phone. On the
  phone \<open>555-1234\<close> it returns the input unchanged, hyphen included, while the
  digit-only substring is \<open>5551234\<close>.
\<close>

theorem C1_clean_phone_keeps_non_digits:
  "clean_phone (PStr ''555-1234'') = Inr (Some ''555-1234'')
   \<and> digits_only ''555-1234'' = ''5551234''
   \<and> clean_phone (PStr ''555-1234'') \<noteq> Inr (Some (digits_only ''555-1234''))"
  by (simp add: digits_only_def is_digit_def)

section \<open>Contact matcher\<close>

lemma execute_search_query_Some:
  assumes "fst (execute_search_query w ns q mt) = Some r"
  shows "found r \<and> \<not> manual_verification r \<and> review_reason r = mt \<and> details r \<noteq> None"
  using assms
  by (auto simp: execute_search_query_def Let_def split: post_outcome.splits if_splits list.splits)

lemma execute_search_query_finds:
  assumes "suiteql w q = PostResponse 200 items" and "items \<noteq> []"
  shows "\<exists>r. fst (execute_search_query w ns q mt) = Some r"
  using assms by (cases items) (simp_all add: execute_search_query_def Let_def)

lemma execute_search_query_fails:
  "query_fails (suiteql w q) \<Longrightarrow> fst (execute_search_query w ns q mt) = None"
  by (cases "suiteql w q") (simp_all add: execute_search_query_def)

lemma execute_search_query_no_rows:
  assumes "answers_from table w q" and "filter (customer_where q) table = []"
  shows "fst (execute_search_query w ns q mt) = None"
  using assms
  by (cases "suiteql w q")
     (auto simp: execute_search_query_def answers_from_def select_customers_def split: if_splits)


text \<open>The result when the perfect-match query finds nothing and the email-only query finds \<open>m\<close>.\<close>

lemma email_only_result:
  assumes "supplied_phone p = Inr clean"
    and "\<And>c. clean = Some c \<Longrightarrow> c \<noteq> [] \<Longrightarrow> fst (search_customer_perfect_match w ns e c) = None"
    and "fst (search_customer_email_only w ns e) = Some m"
    and "annotate_email_match clean m = Inr r"
  shows "fst (search_contact_by_email_and_phone w ns e p) = r"
  using assms
  by (cases clean)
     (auto simp: search_contact_by_email_and_phone_def search_contact_try_def Let_def)

lemma no_match_result:
  assumes "supplied_phone p = Inr clean"
    and "\<And>c. fst (search_customer_perfect_match w ns e c) = None"
    and "fst (search_customer_email_only w ns e) = None"
  shows "fst (search_contact_by_email_and_phone w ns e p) = no_record_found"
  using assms
  by (cases clean)
     (auto simp: search_contact_by_email_and_phone_def search_contact_try_def Let_def)







text \<open>
  C4. The CRM holds a contact with the same email (up to case), the same digits in the
  phone and a sales rep, and every request succeeds. The matcher is called with the
  phone \<open>555-1234\<close>. The phone reaches the perfect-match query with its hyphen, the
  query selects nothing, and the email-only fallback reports a phone mismatch that
  needs manual verification, where a perfect match was due.
\<close>

theorem C4_perfect_match_missed:
  "perfect_match_where ''ann@example.com'' (digits_only ''555-1234'') ann
   \<and> search_contact_by_email_and_phone (crm_world [ann]) acme
        (PStr ''ann@example.com'') (PStr ''555-1234'')
     = (\<lparr> details = Some ann_details, found = True, manual_verification = True,
          review_reason = ''Phone number mismatch'' \<rparr>,
        [SuiteQL ''https://acme.suitetalk.api.netsuite.com/services/rest/query/v1/suiteql''
           (PerfectMatchQuery ''ann@example.com'' ''555-1234''),
         SuiteQL ''https://acme.suitetalk.api.netsuite.com/services/rest/query/v1/suiteql''
           (EmailOnlyQuery ''ann@example.com'')])"
  by (simp add: matcher_defs eval_defs fixture_defs)

text \<open>
  When the supplied phone is a text of digits, the normalizer leaves it as it is and a
  CRM that answers the perfect-match query gives the perfect match.
\<close>

lemma perfect_match_when_phone_is_digits:
  assumes "c \<noteq> []" and "list_all is_digit c"
    and "suiteql w (PerfectMatchQuery (py_str e) c)
         = PostResponse 200 (select_customers table (PerfectMatchQuery (py_str e) c))"
    and "\<exists>r \<in> set table. perfect_match_where (py_str e) c r"
  shows "found (fst (search_contact_by_email_and_phone w ns e (PStr c)))
         \<and> \<not> manual_verification (fst (search_contact_by_email_and_phone w ns e (PStr c)))
         \<and> review_reason (fst (search_contact_by_email_and_phone w ns e (PStr c))) = ''Perfect match''"
proof -
  have clean: "supplied_phone (PStr c) = Inr (Some c)"
    using assms(1,2) by (simp add: supplied_phone_def re_sub_digits)
  have "filter (customer_where (PerfectMatchQuery (py_str e) c)) table \<noteq> []"
    using assms(4) by (auto simp: filter_empty_conv)
  then have "select_customers table (PerfectMatchQuery (py_str e) c) \<noteq> []"
    by (simp add: select_customers_def)
  then have "\<exists>r. fst (search_customer_perfect_match w ns e c) = Some r"
    unfolding search_customer_perfect_match_def
    by (intro execute_search_query_finds [OF assms(3)])
  then obtain r where r: "fst (search_customer_perfect_match w ns e c) = Some r"
    by blast
  then have "found r \<and> \<not> manual_verification r \<and> review_reason r = ''Perfect match''"
    using execute_search_query_Some [of w ns _ "''Perfect match''" r]
    by (simp add: search_customer_perfect_match_def)
  moreover have "fst (search_contact_by_email_and_phone w ns e (PStr c)) = r"
    using clean r assms(1)
    by (simp add: search_contact_by_email_and_phone_def search_contact_try_def Let_def)
  ultimately show ?thesis by simp
qed

text \<open>
  C5. An email-only match: the phone can be cleaned, the perfect-match search (made
  when the cleaned phone is not empty) found nothing, and the email-only search found
  the record \<open>m\<close>. The caller supplied a phone when the cleaned phone is not empty.
  Then: a CRM phone that differs from the caller's after cleaning (in particular, one
  with other digits) gives "Phone number mismatch" with manual verification; a CRM
  record without phone gives "Missing phone in NetSuite" with manual verification; no
  supplied phone gives "No phone provided" without manual verification.
\<close>

theorem C5_email_only_match:
  assumes "supplied_phone p = Inr clean"
    and "\<forall>c. clean = Some c \<and> c \<noteq> [] \<longrightarrow> fst (search_customer_perfect_match w ns e c) = None"
    and "fst (search_customer_email_only w ns e) = Some m"
  shows "(\<forall>netsuite_phone.
            opt_truthy clean \<and> truthy (contact_get m phone PNone)
            \<and> clean_phone (contact_get m phone PNone) = Inr netsuite_phone \<and> netsuite_phone \<noteq> clean
            \<longrightarrow> fst (search_contact_by_email_and_phone w ns e p)
                 = m \<lparr> manual_verification := True, review_reason := ''Phone number mismatch'' \<rparr>)
       \<and> (\<forall>a b.
            p = PStr a \<and> opt_truthy clean \<and> contact_get m phone PNone = PStr b \<and> b \<noteq> []
            \<and> digits_only a \<noteq> digits_only b
            \<longrightarrow> fst (search_contact_by_email_and_phone w ns e p)
                 = m \<lparr> manual_verification := True, review_reason := ''Phone number mismatch'' \<rparr>)
       \<and> (opt_truthy clean \<and> \<not> truthy (contact_get m phone PNone)
            \<longrightarrow> fst (search_contact_by_email_and_phone w ns e p)
                 = m \<lparr> manual_verification := True, review_reason := ''Missing phone in NetSuite'' \<rparr>)
       \<and> (\<not> opt_truthy clean
            \<longrightarrow> fst (search_contact_by_email_and_phone w ns e p)
                 = m \<lparr> manual_verification := False, review_reason := ''No phone provided'' \<rparr>)"
proof -
  have perfect: "fst (search_customer_perfect_match w ns e c) = None"
    if "clean = Some c" "c \<noteq> []" for c
    using assms(2) that by blast
  note res = email_only_result [OF assms(1) perfect assms(3)]
  have mismatch: "fst (search_contact_by_email_and_phone w ns e p)
      = m \<lparr> manual_verification := True, review_reason := ''Phone number mismatch'' \<rparr>"
    if "opt_truthy clean" "truthy (contact_get m phone PNone)"
      "clean_phone (contact_get m phone PNone) = Inr np" "np \<noteq> clean" for np
    using that by (intro res) (simp_all add: annotate_email_match_def)
  have digits: "fst (search_contact_by_email_and_phone w ns e p)
      = m \<lparr> manual_verification := True, review_reason := ''Phone number mismatch'' \<rparr>"
    if "p = PStr a" "opt_truthy clean" "contact_get m phone PNone = PStr b" "b \<noteq> []"
      "digits_only a \<noteq> digits_only b" for a b
  proof -
    have "clean = Some (re_sub_backslash_D a)"
      using that(1,2) assms(1) by (auto simp: supplied_phone_def split: if_splits)
    moreover have "re_sub_backslash_D b \<noteq> re_sub_backslash_D a"
      using that(5) digits_only_re_sub [of a] digits_only_re_sub [of b] by auto
    ultimately show ?thesis
      using that by (intro mismatch [of "Some (re_sub_backslash_D b)"]) simp_all
  qed
  have missing: "fst (search_contact_by_email_and_phone w ns e p)
      = m \<lparr> manual_verification := True, review_reason := ''Missing phone in NetSuite'' \<rparr>"
    if "opt_truthy clean" "\<not> truthy (contact_get m phone PNone)"
    using that by (intro res) (simp_all add: annotate_email_match_def)
  have none: "fst (search_contact_by_email_and_phone w ns e p)
      = m \<lparr> manual_verification := False, review_reason := ''No phone provided'' \<rparr>"
    if "\<not> opt_truthy clean"
    using that by (intro res) (simp_all add: annotate_email_match_def)
  show ?thesis
    using mismatch digits missing none by blast
qed

theorem C5_witness:
  "fst (search_contact_by_email_and_phone (crm_world [ann]) acme
          (PStr ''ann@example.com'') (PStr ''555-0000''))
     = \<lparr> details = Some ann_details, found = True, manual_verification = True,
         review_reason = ''Phone number mismatch'' \<rparr>
   \<and> fst (search_contact_by_email_and_phone (crm_world [bob]) acme
          (PStr ''bob@example.com'') (PStr ''555-0000''))
     = \<lparr> details = Some bob_details, found = True, manual_verification = True,
         review_reason = ''Missing phone in NetSuite'' \<rparr>
   \<and> fst (search_contact_by_email_and_phone (crm_world [ann]) acme
          (PStr ''ann@example.com'') PNone)
     = \<lparr> details = Some ann_details, found = True, manual_verification = False,
         review_reason = ''No phone provided'' \<rparr>"
proof -
  have clean: "supplied_phone (PStr ''555-0000'') = Inr (Some ''555-0000'')"
      "supplied_phone PNone = Inr None"
    by (simp_all add: supplied_phone_def)
  have no_perfect:
      "\<forall>c. Some ''555-0000'' = Some c \<and> c \<noteq> [] \<longrightarrow>
         fst (search_customer_perfect_match (crm_world [ann]) acme (PStr ''ann@example.com'') c) = None"
      "\<forall>c. Some ''555-0000'' = Some c \<and> c \<noteq> [] \<longrightarrow>
         fst (search_customer_perfect_match (crm_world [bob]) acme (PStr ''bob@example.com'') c) = None"
      "\<forall>c. None = Some c \<and> c \<noteq> [] \<longrightarrow>
         fst (search_customer_perfect_match (crm_world [ann]) acme (PStr ''ann@example.com'') c) = None"
    by (simp_all add: matcher_defs eval_defs fixture_defs)
  have email_only:
      "fst (search_customer_email_only (crm_world [ann]) acme (PStr ''ann@example.com''))
         = Some (email_match_of ann_details)"
      "fst (search_customer_email_only (crm_world [bob]) acme (PStr ''bob@example.com''))
         = Some (email_match_of bob_details)"
    by (simp_all add: matcher_defs eval_defs fixture_defs)
  show ?thesis
    using C5_email_only_match [OF clean(1) no_perfect(1) email_only(1)]
      C5_email_only_match [OF clean(1) no_perfect(2) email_only(2)]
      C5_email_only_match [OF clean(2) no_perfect(3) email_only(1)]
    by (simp add: eval_defs fixture_defs)
qed

lemma perfect_is_email_only: "perfect_match_where e c r \<Longrightarrow> email_only_where e r"
  by (simp add: perfect_match_where_def email_only_where_def)

text \<open>
  C6. The phone can be cleaned, the world answers the two customer queries from the
  customer table whenever it answers them with status 200, and no row of the table
  matches the email with a sales rep (so none is a perfect match either). Then the
  matcher returns found=false, manual_verification=true and "No NetSuite record found".
\<close>

theorem C6_no_record_found:
  assumes "supplied_phone p = Inr clean"
    and "\<forall>c. answers_from table w (PerfectMatchQuery (py_str e) c)"
    and "answers_from table w (EmailOnlyQuery (py_str e))"
    and "\<forall>r \<in> set table. \<not> email_only_where (py_str e) r"
  shows "fst (search_contact_by_email_and_phone w ns e p)
         = \<lparr> details = None, found = False, manual_verification = True,
             review_reason = ''No NetSuite record found'' \<rparr>"
proof -
  have none: "filter (customer_where q) table = []"
    if "q = EmailOnlyQuery (py_str e) \<or> q = PerfectMatchQuery (py_str e) c" for q c
    using that assms(4) perfect_is_email_only [of "py_str e" c]
    by (auto simp: filter_empty_conv)
  have "fst (search_customer_perfect_match w ns e c) = None" for c
    unfolding search_customer_perfect_match_def
    using assms(2) none by (intro execute_search_query_no_rows [of table]) auto
  moreover have "fst (search_customer_email_only w ns e) = None"
    unfolding search_customer_email_only_def
    using assms(3) none by (intro execute_search_query_no_rows [of table]) auto
  ultimately show ?thesis
    using no_match_result [OF assms(1)] by (simp add: no_record_found_def)
qed

theorem C6_witness:
  "fst (search_contact_by_email_and_phone (crm_world [ann]) acme
          (PStr ''zed@example.com'') (PStr ''5551234''))
     = \<lparr> details = None, found = False, manual_verification = True,
         review_reason = ''No NetSuite record found'' \<rparr>"
proof -
  have clean: "supplied_phone (PStr ''5551234'') = Inr (Some ''5551234'')"
    by (simp add: supplied_phone_def)
  have perfect: "\<forall>c. answers_from [ann] (crm_world [ann])
      (PerfectMatchQuery (py_str (PStr ''zed@example.com'')) c)"
    by (simp add: answers_from_def crm_world_def)
  have email_only: "answers_from [ann] (crm_world [ann])
      (EmailOnlyQuery (py_str (PStr ''zed@example.com'')))"
    by (simp add: answers_from_def crm_world_def)
  have no_row: "\<forall>r \<in> set [ann]. \<not> email_only_where (py_str (PStr ''zed@example.com'')) r"
    by (simp add: eval_defs fixture_defs)
  show ?thesis
    using C6_no_record_found [OF clean perfect email_only no_row] .
qed

text \<open>
  C7, as stated, fails: when both SuiteQL requests time out, the matcher does not
  report a search error with the message of the failure but "No NetSuite record found".
\<close>

theorem C7_counterexample:
  "query_fails (suiteql offline_world (PerfectMatchQuery ''ann@example.com'' ''5551234''))
   \<and> query_fails (suiteql offline_world (EmailOnlyQuery ''ann@example.com''))
   \<and> review_reason (fst (search_contact_by_email_and_phone offline_world acme
        (PStr ''ann@example.com'') (PStr ''5551234'')))
       = ''No NetSuite record found''
   \<and> review_reason (fst (search_contact_by_email_and_phone offline_world acme
        (PStr ''ann@example.com'') (PStr ''5551234'')))
       \<noteq> ''Search error: timed out''"
  by (simp add: matcher_defs eval_defs offline_world_def timed_out_def acme_def)

text \<open>
  C7, amended. The matcher always returns a result. A failure of a SuiteQL request is
  caught inside the query executor and counts as "no result" of that query: when the
  requests of both searches fail, the result is found=false, manual_verification=true,
  "No NetSuite record found". An exception raised in the body of the matcher outside
  the query executor (such as the \<open>TypeError\<close> of the phone normalizer on a phone that
  is not a string) is converted into found=false, manual_verification=true,
  "Search error: <message>".
\<close>

theorem C7_failures_absorbed:
  "(\<forall>clean. supplied_phone p = Inr clean
       \<and> (\<forall>c. query_fails (suiteql w (PerfectMatchQuery (py_str e) c)))
       \<and> query_fails (suiteql w (EmailOnlyQuery (py_str e)))
      \<longrightarrow> fst (search_contact_by_email_and_phone w ns e p)
           = \<lparr> details = None, found = False, manual_verification = True,
               review_reason = ''No NetSuite record found'' \<rparr>)
   \<and> (\<forall>error t. search_contact_try w ns e p = (Inl error, t)
      \<longrightarrow> fst (search_contact_by_email_and_phone w ns e p)
           = \<lparr> details = None, found = False, manual_verification = True,
               review_reason = ''Search error: '' @ str_exn error \<rparr>)
   \<and> (\<forall>error. supplied_phone p = Inl error
      \<longrightarrow> fst (search_contact_by_email_and_phone w ns e p)
           = \<lparr> details = None, found = False, manual_verification = True,
               review_reason = ''Search error: '' @ str_exn error \<rparr>)"
proof -
  have absorbed: "fst (search_contact_by_email_and_phone w ns e p)
           = \<lparr> details = None, found = False, manual_verification = True,
               review_reason = ''No NetSuite record found'' \<rparr>"
    if a: "supplied_phone p = Inr clean
       \<and> (\<forall>c. query_fails (suiteql w (PerfectMatchQuery (py_str e) c)))
       \<and> query_fails (suiteql w (EmailOnlyQuery (py_str e)))" for clean
  proof -
    have "fst (search_customer_perfect_match w ns e c) = None" for c
      using a by (simp add: search_customer_perfect_match_def execute_search_query_fails)
    moreover have "fst (search_customer_email_only w ns e) = None"
      using a by (simp add: search_customer_email_only_def execute_search_query_fails)
    ultimately show ?thesis
      using a no_match_result [of p clean w ns e] by (simp add: no_record_found_def)
  qed
  have converted: "fst (search_contact_by_email_and_phone w ns e p)
           = \<lparr> details = None, found = False, manual_verification = True,
               review_reason = ''Search error: '' @ str_exn error \<rparr>"
    if "search_contact_try w ns e p = (Inl error, t)" for error t
    using that by (simp add: search_contact_by_email_and_phone_def search_error_def)
  have "search_contact_try w ns e p = (Inl error, [])" if "supplied_phone p = Inl error" for error
    using that by (simp add: search_contact_try_def)
  with absorbed converted show ?thesis
    by blast
qed

theorem C7_witness:
  "fst (search_contact_by_email_and_phone offline_world acme
          (PStr ''ann@example.com'') (PStr ''5551234''))
     = \<lparr> details = None, found = False, manual_verification = True,
         review_reason = ''No NetSuite record found'' \<rparr>
   \<and> fst (search_contact_by_email_and_phone (crm_world [ann]) acme
          (PStr ''ann@example.com'') (PInt 5551234))
     = \<lparr> details = None, found = False, manual_verification = True,
         review_reason = ''Search error: expected string or bytes-like object'' \<rparr>"
proof -
  have "supplied_phone (PStr ''5551234'') = Inr (Some ''5551234'')
       \<and> (\<forall>c. query_fails (suiteql offline_world
                 (PerfectMatchQuery (py_str (PStr ''ann@example.com'')) c)))
       \<and> query_fails (suiteql offline_world (EmailOnlyQuery (py_str (PStr ''ann@example.com''))))"
    by (simp add: supplied_phone_def offline_world_def)
  moreover have "supplied_phone (PInt 5551234) = Inl re_type_error"
    by (simp add: supplied_phone_def)
  ultimately show ?thesis
    using C7_failures_absorbed [of "PStr ''5551234''" offline_world "PStr ''ann@example.com''" acme]
      C7_failures_absorbed [of "PInt 5551234" "crm_world [ann]" "PStr ''ann@example.com''" acme]
    by (simp add: re_type_error_def)
qed

text \<open>
  The fallback does label an email-only record "Perfect match" when the phone of the
  record cleans to the same text as the caller's phone.
\<close>

lemma fallback_when_cleaned_phones_agree:
  assumes "supplied_phone p = Inr (Some c)" and "c \<noteq> []"
    and "fst (search_customer_perfect_match w ns e c) = None"
    and "fst (search_customer_email_only w ns e) = Some m"
    and "clean_phone (contact_get m phone PNone) = Inr (Some c)"
  shows "fst (search_contact_by_email_and_phone w ns e p)
         = m \<lparr> manual_verification := False, review_reason := ''Perfect match'' \<rparr>"
proof -
  have "truthy (contact_get m phone PNone)"
    using assms(5) by (cases "contact_get m phone PNone") (auto split: if_splits)
  then have "annotate_email_match (Some c) m
      = Inr (m \<lparr> manual_verification := False, review_reason := ''Perfect match'' \<rparr>)"
    using assms(2,5) by (simp add: annotate_email_match_def)
  then show ?thesis
    using assms by (intro email_only_result [of p "Some c"]) simp_all
qed

lemma fallback_labelled_perfect_match:
  "fst (search_contact_by_email_and_phone (crm_world [cy]) acme
          (PStr ''cy@example.com'') (PStr ''555-1234''))
     = \<lparr> details = Some cy_details, found = True, manual_verification = False,
         review_reason = ''Perfect match'' \<rparr>"
  by (simp add: matcher_defs eval_defs fixture_defs)

text \<open>
  C10. The caller supplied the phone \<open>555-1234\<close>, the perfect-match search produced no
  result, and the email-only search found a record whose phone \<open>5551234\<close> equals the
  caller's phone after normalization (the digits are the same). The fallback is meant
  to return this record with manual_verification=false and "Perfect match"; it
  compares the two phones as the normalizer left them, hyphen included, and returns
  "Phone number mismatch" with manual verification.
\<close>

theorem C10_fallback_mismatch_on_equal_digits:
  "supplied_phone (PStr ''555-1234'') = Inr (Some ''555-1234'')
   \<and> fst (search_customer_perfect_match (crm_world [ann]) acme
            (PStr ''ann@example.com'') ''555-1234'') = None
   \<and> fst (search_customer_email_only (crm_world [ann]) acme (PStr ''ann@example.com''))
       = Some (email_match_of ann_details)
   \<and> contact_get (email_match_of ann_details) phone PNone = PStr ''5551234''
   \<and> digits_only ''5551234'' = digits_only ''555-1234''
   \<and> fst (search_contact_by_email_and_phone (crm_world [ann]) acme
            (PStr ''ann@example.com'') (PStr ''555-1234''))
       = \<lparr> details = Some ann_details, found = True, manual_verification = True,
           review_reason = ''Phone number mismatch'' \<rparr>"
  by (simp add: matcher_defs eval_defs fixture_defs)

section \<open>Order fetcher\<close>

text \<open>
  C9. When the request to the order-management API fails with \<open>error\<close>,
  \<open>get_order_details\<close> sends the request, prints the error and raises the same error
  to its caller: its result is the error, not an order.
\<close>

theorem C9_order_fetch_propagates:
  assumes "order_api w (base_url svc @ ''/orders/'' @ py_str order_id) = Inl error"
  shows "get_order_details w svc order_id
         = (Inl error,
            [HttpGet (base_url svc @ ''/orders/'' @ py_str order_id),
             Print (''Error fetching order '' @ py_str order_id @ '' from '' @ store_name svc
                    @ '': '' @ str_exn error)])"
  using assms by (simp add: get_order_details_def)

theorem C9_witness:
  "get_order_details offline_world wilson_us (PStr ''1001'')
     = (Inl timed_out,
        [HttpGet ''https://api.bigcommerce.com/stores/abc123/v2/orders/1001'',
         Print ''Error fetching order 1001 from abc123: timed out''])"
proof -
  have "order_api offline_world (base_url wilson_us @ ''/orders/'' @ py_str (PStr ''1001''))
      = Inl timed_out"
    by (simp add: offline_world_def)
  from C9_order_fetch_propagates [OF this] show ?thesis
    by (simp add: wilson_us_def BigCommerceService_def timed_out_def)
qed

section \<open>Attribution orchestrator\<close>

text \<open>
  C2, as stated, fails: for a store name that is not one of the four recognized
  stores, the error is returned with status 500, not 400.
\<close>

theorem C2_counterexample:
  "store_config (PStr ''Acme'') = None
   \<and> process_klaviyo_order (crm_world [ann]) (order_event ''Acme'')
     = (Error ''Unknown store name: Acme'' 500,
        [Print ''Processing order 1001 from Acme'',
         Print ''Error processing Klaviyo order: Unknown store name: Acme''])
   \<and> error_status (fst (process_klaviyo_order (crm_world [ann]) (order_event ''Acme'')))
       \<noteq> Some 400"
  by (simp add: orchestrator_defs dict_get_def)

text \<open>
  C2, amended. A payload without order id (or with an empty one) is answered with
  status 400, and so is a payload with an order id and without store name; an
  unrecognized store name is answered with status 500 and the message
  "Unknown store name: <name>". In the three cases no network call is made.
\<close>

theorem C2_validation:
  "(\<not> truthy (dict_get (order_info payload) ''order_id'' PNone)
      \<longrightarrow> process_klaviyo_order w payload = (Error ''No order ID found in Klaviyo data'' 400, []))
   \<and> (truthy (dict_get (order_info payload) ''order_id'' PNone)
       \<and> \<not> truthy (dict_get (order_info payload) ''store'' PNone)
      \<longrightarrow> process_klaviyo_order w payload = (Error ''No store name found in Klaviyo data'' 400, []))
   \<and> (truthy (dict_get (order_info payload) ''order_id'' PNone)
       \<and> truthy (dict_get (order_info payload) ''store'' PNone)
       \<and> store_config (dict_get (order_info payload) ''store'' PNone) = None
      \<longrightarrow> fst (process_klaviyo_order w payload)
             = Error (''Unknown store name: '' @ py_str (dict_get (order_info payload) ''store'' PNone)) 500
          \<and> filter is_network_call (snd (process_klaviyo_order w payload)) = [])"
  by (simp add: process_klaviyo_order_def process_klaviyo_order_try_def fetch_and_match_def
      get_bigcommerce_service_by_store_name_def Let_def)

theorem C2_witness:
  "process_klaviyo_order (crm_world [ann]) \<lparr> data = Some [(''store'', PStr ''Wilson US'')] \<rparr>
     = (Error ''No order ID found in Klaviyo data'' 400, [])
   \<and> process_klaviyo_order (crm_world [ann]) \<lparr> data = Some [(''order_id'', PStr ''1001'')] \<rparr>
     = (Error ''No store name found in Klaviyo data'' 400, [])
   \<and> fst (process_klaviyo_order (crm_world [ann]) (order_event ''Acme''))
     = Error ''Unknown store name: Acme'' 500
   \<and> filter is_network_call (snd (process_klaviyo_order (crm_world [ann]) (order_event ''Acme''))) = []"
  using C2_validation [of "\<lparr> data = Some [(''store'', PStr ''Wilson US'')] \<rparr>" "crm_world [ann]"]
    C2_validation [of "\<lparr> data = Some [(''order_id'', PStr ''1001'')] \<rparr>" "crm_world [ann]"]
    C2_validation [of "order_event ''Acme''" "crm_world [ann]"]
  by (simp add: order_info_def order_event_def dict_get_def store_configs_def)














end
